theory Spec2Isabelle
  imports Complex_Main "HOL-Library.Multiset"
begin

section \<open>FinancialFileFetcher: table index, table lookup and table scraping\<close>

text \<open>
  A shallow embedding of \<^verbatim>\<open>get_table_info\<close>, \<^verbatim>\<open>get_table_url\<close> and
  \<^verbatim>\<open>display_table\<close> of \<^verbatim>\<open>FinancialFileFetcher.py\<close>. The network and the markup
  parser are collaborators of the code: they are a parameter \<open>web\<close>, a function from the
  requested URL and the identity string to either an exception or the parsed document.
  Exceptions of Python are values of \<open>py_error\<close>; a function that can raise returns
  \<open>py_error + 'a\<close>.
\<close>

subsection \<open>Exceptions and documents\<close>

datatype py_error =
    IndexError
  | KeyError
  | AttributeError
  | ValueError
  | RequestException

text \<open>
  One \<^verbatim>\<open>report\<close> element of the filing summary: the text of its \<^verbatim>\<open>shortname\<close> and
  \<^verbatim>\<open>htmlfilename\<close> children, \<open>None\<close> where the child is absent (BeautifulSoup then
  gives \<^verbatim>\<open>None\<close>, and \<^verbatim>\<open>.text\<close> on it raises AttributeError).
\<close>

record report =
  shortname :: "string option"
  htmlfilename :: "string option"

text \<open>
  One \<^verbatim>\<open>tr\<close> element of a table document, as \<^verbatim>\<open>display_table\<close> reads it:
  \<open>th\<close> is \<^verbatim>\<open>[ele.text.strip() for ele in row.find_all('th')]\<close>, \<open>td\<close> the same for
  \<^verbatim>\<open>row.find_all('td')\<close>, and \<open>strong\<close> is \<^verbatim>\<open>len(row.find_all('strong'))\<close>.
\<close>

record tr =
  th :: "string list"
  td :: "string list"
  strong :: nat

text \<open>
  A parsed document: \<open>myreports\<close> is the list \<^verbatim>\<open>soup.find('myreports').find_all('report')\<close>
  (\<open>None\<close> when there is no \<^verbatim>\<open>myreports\<close> element), \<open>table\<close> is
  \<^verbatim>\<open>soup.table.find_all('tr')\<close> (\<open>None\<close> when there is no \<^verbatim>\<open>table\<close> element).
\<close>

record soup =
  myreports :: "report list option"
  table :: "tr list option"

type_synonym web = "string \<Rightarrow> string \<Rightarrow> py_error + soup"

subsection \<open>Strings: \<^verbatim>\<open>re.findall\<close>, \<^verbatim>\<open>str.replace\<close>, \<^verbatim>\<open>str.join\<close>\<close>

text \<open>
  \<^verbatim>\<open>re.findall(r"\/[^\/]+", url)\<close>: scanning from the left, a slash followed by the
  longest non-empty run of characters other than a slash is a match, and the scan goes on
  after the match; a slash followed by a slash, or by nothing, is skipped.
\<close>

function findall_segments :: "string \<Rightarrow> string list" where
  "findall_segments [] = []"
| "findall_segments (c # cs) =
     (if c = CHR ''/'' \<and> takeWhile (\<lambda>d. d \<noteq> CHR ''/'') cs \<noteq> []
      then (c # takeWhile (\<lambda>d. d \<noteq> CHR ''/'') cs)
             # findall_segments (dropWhile (\<lambda>d. d \<noteq> CHR ''/'') cs)
      else findall_segments cs)"
  by pat_completeness auto
termination
  by (relation "measure length") (auto simp: length_dropWhile_le less_Suc_eq_le)

text \<open>\<^verbatim>\<open>xs[-1]\<close>: the last element, IndexError on the empty list.\<close>

definition py_last :: "'a list \<Rightarrow> py_error + 'a" where
  "py_last xs = (if xs = [] then Inl IndexError else Inr (last xs))"

text \<open>
  \<^verbatim>\<open>s.replace(old, new)\<close>: every non-overlapping occurrence of \<open>old\<close> in \<open>s\<close>, taken
  from the left, becomes \<open>new\<close>. With an empty \<open>old\<close> Python puts \<open>new\<close> before every
  character and at the end.
\<close>

function py_replace :: "string \<Rightarrow> string \<Rightarrow> string \<Rightarrow> string" where
  "py_replace old new [] = (if old = [] then new else [])"
| "py_replace old new (c # cs) =
     (if old = [] then new @ c # py_replace old new cs
      else if take (length old) (c # cs) = old
      then new @ py_replace old new (drop (length old) (c # cs))
      else c # py_replace old new cs)"
  by pat_completeness auto
termination
  by (relation "measure (\<lambda>(old, new, s). length s)") auto

text \<open>\<^verbatim>\<open>sep.join(xs)\<close>.\<close>

fun py_join :: "string \<Rightarrow> string list \<Rightarrow> string" where
  "py_join sep [] = []"
| "py_join sep [x] = x"
| "py_join sep (x # y # ys) = x @ sep @ py_join sep (y # ys)"

subsection \<open>\<^verbatim>\<open>get_table_info\<close> and \<^verbatim>\<open>get_table_url\<close>\<close>

text \<open>
  The loop over \<^verbatim>\<open>reports.find_all('report')[:-1]\<close>: each report gives the pair of its
  short name and the statement URL with \<open>lst\<close> replaced by a slash and the file name.
\<close>

fun master_reports :: "string \<Rightarrow> string \<Rightarrow> report list \<Rightarrow> py_error + (string \<times> string) list" where
  "master_reports url lst [] = Inr []"
| "master_reports url lst (r # rs) =
     (case shortname r of
        None \<Rightarrow> Inl AttributeError
      | Some name \<Rightarrow>
          (case htmlfilename r of
             None \<Rightarrow> Inl AttributeError
           | Some file \<Rightarrow>
               (case master_reports url lst rs of
                  Inl e \<Rightarrow> Inl e
                | Inr ps \<Rightarrow> Inr ((name, py_replace lst (CHR ''/'' # file) url) # ps))))"

text \<open>
  \<^verbatim>\<open>get_table_info\<close>. \<open>lst\<close> is the last match of the pattern in the URL, and the
  page requested is the URL with \<open>lst\<close> replaced by \<^verbatim>\<open>/FilingSummary.xml\<close>.
  The returned DataFrame, indexed by \<^verbatim>\<open>Table_name\<close> with the one
  column \<^verbatim>\<open>url\<close>, is the list of its (name, url) rows. \<^verbatim>\<open>pd.DataFrame([])\<close> has no
  column, so \<^verbatim>\<open>df_tables['name_short']\<close> raises KeyError when no report is left.
\<close>

definition get_table_info :: "web \<Rightarrow> string \<Rightarrow> string \<Rightarrow> py_error + (string \<times> string) list" where
  "get_table_info web url email =
     (case py_last (findall_segments url) of
        Inl e \<Rightarrow> Inl e
      | Inr lst \<Rightarrow>
          (case web (py_replace lst ''/FilingSummary.xml'' url) email of
             Inl e \<Rightarrow> Inl e
           | Inr page \<Rightarrow>
               (case myreports page of
                  None \<Rightarrow> Inl AttributeError
                | Some reports \<Rightarrow>
                    (case master_reports url lst (butlast reports) of
                       Inl e \<Rightarrow> Inl e
                     | Inr ps \<Rightarrow> if ps = [] then Inl KeyError else Inr ps))))"

text \<open>\<^verbatim>\<open>display_table_name\<close>: the index of the table, as a list.\<close>

definition display_table_name :: "web \<Rightarrow> string \<Rightarrow> string \<Rightarrow> py_error + string list" where
  "display_table_name web url email =
     (case get_table_info web url email of
        Inl e \<Rightarrow> Inl e
      | Inr table_info \<Rightarrow> Inr (map fst table_info))"

text \<open>
  \<^verbatim>\<open>get_table_url\<close>. The call of \<^verbatim>\<open>get_table_info\<close> is outside the \<^verbatim>\<open>try\<close>, so its
  exceptions propagate. Inside the \<^verbatim>\<open>try\<close>, \<^verbatim>\<open>.values[0]\<close> of the rows whose index equals
  \<open>table_name\<close> raises IndexError when there is none; the handler prints
  \<^verbatim>\<open>ERROR! Please double check the input table name!\<close> and returns \<^verbatim>\<open>None\<close>.
\<close>

definition get_table_url :: "web \<Rightarrow> string \<Rightarrow> string \<Rightarrow> string \<Rightarrow> py_error + string option" where
  "get_table_url web fs_url email table_name =
     (case get_table_info web fs_url email of
        Inl e \<Rightarrow> Inl e
      | Inr table_info \<Rightarrow>
          (case map snd (filter (\<lambda>p. fst p = table_name) table_info) of
             [] \<Rightarrow> Inr None
           | ret_url # _ \<Rightarrow> Inr (Some ret_url)))"

subsection \<open>Cells and frames\<close>

text \<open>
  A cell of a DataFrame: a string, or a float. \<open>Num r\<close> stands for the double nearest to
  the rational \<open>r\<close> (the numbers named below, such as 1234.5 and 100, are doubles
  themselves), \<open>Infinity neg\<close> for the two infinities and \<open>NaN\<close> for the not-a-number that
  pandas uses as its missing-value marker.
\<close>

datatype cell = Str string | Num rat | Infinity bool | NaN

text \<open>
  A row or column label: an integer (a position, a default column number) or a cell
  value (after \<^verbatim>\<open>ret_df.index = ret_df[0]\<close> and \<^verbatim>\<open>ret_df.columns = header\<close>).
\<close>

datatype label = Int_label nat | Cell_label cell

record frame =
  index_name :: "label option"
  index :: "label list"
  columns :: "label list"
  cells :: "cell list list"

subsection \<open>\<^verbatim>\<open>float(s)\<close> on a string\<close>

definition is_space :: "char \<Rightarrow> bool" where
  "is_space c = (c \<in> set [CHR '' '', CHR 0x09, CHR 0x0A, CHR 0x0B, CHR 0x0C, CHR 0x0D])"

definition py_strip :: "string \<Rightarrow> string" where
  "py_strip s = rev (dropWhile is_space (rev (dropWhile is_space s)))"

definition is_digit :: "char \<Rightarrow> bool" where
  "is_digit c = (48 \<le> (of_char c :: nat) \<and> (of_char c :: nat) \<le> 57)"

definition digit_val :: "char \<Rightarrow> nat" where
  "digit_val c = of_char c - 48"

definition to_lower :: "char \<Rightarrow> char" where
  "to_lower c =
     (case map_of (zip ''ABCDEFGHIJKLMNOPQRSTUVWXYZ'' ''abcdefghijklmnopqrstuvwxyz'') c of
        None \<Rightarrow> c
      | Some l \<Rightarrow> l)"

text \<open>
  The longest prefix of the form digit (\<^verbatim>\<open>_\<close>? digit)*, with the underscores removed, and
  the rest of the string.
\<close>

fun take_digits :: "string \<Rightarrow> string \<times> string" where
  "take_digits [] = ([], [])"
| "take_digits (c # cs) =
     (if is_digit c then
        (case cs of
           d # e # rest \<Rightarrow>
             if d = CHR ''_'' \<and> is_digit e
             then (case take_digits (e # rest) of (ds, r) \<Rightarrow> (c # ds, r))
             else (case take_digits cs of (ds, r) \<Rightarrow> (c # ds, r))
         | _ \<Rightarrow> (case take_digits cs of (ds, r) \<Rightarrow> (c # ds, r)))
      else ([], c # cs))"

definition nat_of_digits :: "string \<Rightarrow> nat" where
  "nat_of_digits ds = foldl (\<lambda>a c. 10 * a + digit_val c) 0 ds"

definition pow10 :: "int \<Rightarrow> rat" where
  "pow10 e = (if 0 \<le> e then 10 ^ nat e else 1 / 10 ^ nat (- e))"

text \<open>
  The exponent part: empty, or \<^verbatim>\<open>e\<close> or \<^verbatim>\<open>E\<close>, an optional sign and digits up to the end.
\<close>

definition exponent :: "string \<Rightarrow> int option" where
  "exponent s =
     (case s of
        [] \<Rightarrow> Some 0
      | c # r \<Rightarrow>
          if c = CHR ''e'' \<or> c = CHR ''E'' then
            (let neg = (case r of x # _ \<Rightarrow> x = CHR ''-'' | [] \<Rightarrow> False);
                 u = (case r of x # t \<Rightarrow> if x = CHR ''-'' \<or> x = CHR ''+'' then t else r | [] \<Rightarrow> r)
             in case take_digits u of
                  (ds, rest) \<Rightarrow>
                    if ds \<noteq> [] \<and> rest = []
                    then Some (if neg then - int (nat_of_digits ds) else int (nat_of_digits ds))
                    else None)
          else None)"

text \<open>
  \<^verbatim>\<open>float(s)\<close>: surrounding white space is dropped; then an optional sign and either
  \<^verbatim>\<open>inf\<close>, \<^verbatim>\<open>infinity\<close> or \<^verbatim>\<open>nan\<close> in any case, or a decimal number with at least one digit
  before or after the point and an optional exponent. \<open>None\<close> is ValueError.
\<close>

definition py_float :: "string \<Rightarrow> cell option" where
  "py_float s =
     (let t = py_strip s;
          neg = (case t of x # _ \<Rightarrow> x = CHR ''-'' | [] \<Rightarrow> False);
          u = (case t of x # r \<Rightarrow> if x = CHR ''-'' \<or> x = CHR ''+'' then r else t | [] \<Rightarrow> t);
          w = map to_lower u
      in if w = ''inf'' \<or> w = ''infinity'' then Some (Infinity neg)
         else if w = ''nan'' then Some NaN
         else
           (case take_digits u of
              (ip, r1) \<Rightarrow>
                (case (case r1 of x # r \<Rightarrow> if x = CHR ''.'' then take_digits r else ([], r1)
                                | [] \<Rightarrow> ([], r1)) of
                   (fp, r2) \<Rightarrow>
                     if ip = [] \<and> fp = [] then None
                     else
                       (case exponent r2 of
                          None \<Rightarrow> None
                        | Some e \<Rightarrow>
                            Some (Num ((if neg then - 1 else 1)
                                        * of_nat (nat_of_digits (ip @ fp))
                                        * pow10 (e - int (length fp))))))))"

subsection \<open>The numeric normalizer (lines 387-393)\<close>

text \<open>
  \<^verbatim>\<open>.replace('[\$,)]', '', regex=True)\<close> deletes every dollar sign, comma and closing
  parenthesis of a string cell; \<^verbatim>\<open>.replace('[(]', '-', regex=True)\<close> turns every opening
  parenthesis into a minus sign; \<^verbatim>\<open>.replace('', 'NaN', regex=True)\<close> has an empty
  pattern, which pandas does not use as a regular expression: it replaces the cells equal
  to the empty string. A cell that is not a string is left as it is.
\<close>

definition replace_chars :: "string \<Rightarrow> string" where
  "replace_chars s =
     (let s1 = filter (\<lambda>c. c \<noteq> CHR ''$'' \<and> c \<noteq> CHR '','' \<and> c \<noteq> CHR '')'') s;
          s2 = map (\<lambda>c. if c = CHR ''('' then CHR ''-'' else c) s1
      in if s2 = [] then ''NaN'' else s2)"

fun replace_cell :: "cell \<Rightarrow> cell" where
  "replace_cell (Str s) = Str (replace_chars s)"
| "replace_cell c = c"

text \<open>\<^verbatim>\<open>.astype(float)\<close> on one cell; \<open>None\<close> is ValueError.\<close>

fun astype_float :: "cell \<Rightarrow> cell option" where
  "astype_float (Str s) = py_float s"
| "astype_float c = Some c"

text \<open>What lines 389-393 do to the text of one data cell of a column from 1 on.\<close>

definition normalize :: "string \<Rightarrow> cell option" where
  "normalize s = astype_float (replace_cell (Str s))"

subsection \<open>\<^verbatim>\<open>display_table\<close>: the row loop (lines 339-375)\<close>

record statement_data =
  headers :: "string list list"
  sections :: "(nat \<times> string list) list"
  data :: "(nat \<times> string list) list"

text \<open>
  The two dictionaries are association lists in insertion order; every key is the
  position of a row, so no key is ever written twice.
\<close>

definition empty_statement_data :: statement_data where
  "empty_statement_data = \<lparr>headers = [], sections = [], data = []\<rparr>"

text \<open>
  The loop over \<^verbatim>\<open>enumerate(report_soup.table.find_all('tr'))\<close>, with the four branches
  of the source in their order. \<open>None\<close> is the \<^verbatim>\<open>else\<close> branch, which prints
  \<^verbatim>\<open>ERROR!!!We encountered an error in parsing the table!\<close> and returns \<^verbatim>\<open>None\<close>.
\<close>

fun parse_rows :: "statement_data \<Rightarrow> (nat \<times> tr) list \<Rightarrow> statement_data option" where
  "parse_rows sd [] = Some sd"
| "parse_rows sd ((i, row) # rest) =
     (if length (th row) = 0 \<and> strong row = 0
      then parse_rows (sd\<lparr>data := data sd @ [(i, td row)]\<rparr>) rest
      else if length (th row) = 0 \<and> strong row \<noteq> 0
      then parse_rows (sd\<lparr>sections := sections sd @ [(i, td row)]\<rparr>) rest
      else if length (th row) \<noteq> 0
      then parse_rows (sd\<lparr>headers := headers sd @ [th row]\<rparr>) rest
      else None)"

subsection \<open>The two DataFrames (lines 379-385)\<close>

text \<open>
  \<^verbatim>\<open>pd.DataFrame(d).T\<close> for a dictionary from row positions to lists of strings: pandas
  raises ValueError unless all the lists have one length. The frame has one row for each
  key, labelled by the key, and the columns 0, 1, ... up to that length.
\<close>

definition row_width :: "(nat \<times> string list) list \<Rightarrow> nat" where
  "row_width d = (case d of [] \<Rightarrow> 0 | p # _ \<Rightarrow> length (snd p))"

definition DataFrame_T :: "(nat \<times> string list) list \<Rightarrow> py_error + frame" where
  "DataFrame_T d =
     (if list_all (\<lambda>p. length (snd p) = row_width d) d
      then Inr \<lparr>index_name = None,
                index = map (\<lambda>p. Int_label (fst p)) d,
                columns = map Int_label [0..<row_width d],
                cells = map (\<lambda>p. map Str (snd p)) d\<rparr>
      else Inl ValueError)"

subsection \<open>String to number (lines 387-397)\<close>

text \<open>\<^verbatim>\<open>df.iloc[:,1:] = f(df.iloc[:,1:])\<close>: column 0 of every row stays, the rest is mapped.\<close>

definition iloc_from_1 :: "(cell \<Rightarrow> cell) \<Rightarrow> cell list \<Rightarrow> cell list" where
  "iloc_from_1 f r = (case r of [] \<Rightarrow> [] | c # cs \<Rightarrow> c # map f cs)"

definition replace_frame :: "frame \<Rightarrow> frame" where
  "replace_frame df = df\<lparr>cells := map (iloc_from_1 replace_cell) (cells df)\<rparr>"

text \<open>
  \<^verbatim>\<open>.astype(float)\<close> of the columns from 1 on: \<open>None\<close> (ValueError) as soon as one cell
  is not the text of a float.
\<close>

definition astype_row :: "cell list \<Rightarrow> cell list option" where
  "astype_row r =
     (case r of
        [] \<Rightarrow> Some []
      | c # cs \<Rightarrow> (case those (map astype_float cs) of None \<Rightarrow> None | Some fs \<Rightarrow> Some (c # fs)))"

definition astype_frame :: "frame \<Rightarrow> frame option" where
  "astype_frame df =
     (case those (map astype_row (cells df)) of
        None \<Rightarrow> None
      | Some rs \<Rightarrow> Some (df\<lparr>cells := rs\<rparr>))"

subsection \<open>Merging (lines 399-405)\<close>

text \<open>
  \<^verbatim>\<open>pd.concat([df, sections_df])\<close>: the rows of the first frame, then those of the
  second; the columns are the union of the two column ranges, and a row that has no cell
  in a column gets \<open>NaN\<close> there.
\<close>

definition pad_row :: "nat \<Rightarrow> cell list \<Rightarrow> cell list" where
  "pad_row w r = r @ replicate (w - length r) NaN"

definition concat_frames :: "frame \<Rightarrow> frame \<Rightarrow> frame" where
  "concat_frames df sections_df =
     (let w = max (length (columns df)) (length (columns sections_df))
      in \<lparr>index_name = None,
          index = index df @ index sections_df,
          columns = map Int_label [0..<w],
          cells = map (pad_row w) (cells df @ cells sections_df)\<rparr>)"

text \<open>
  \<^verbatim>\<open>ret_df.sort_index()\<close>: the rows in the order of their labels, which are row positions
  here.
\<close>

fun label_key :: "label \<Rightarrow> nat" where
  "label_key (Int_label n) = n"
| "label_key (Cell_label c) = 0"

definition sort_index :: "frame \<Rightarrow> frame" where
  "sort_index f =
     (let rs = sort_key (\<lambda>p. label_key (fst p)) (zip (index f) (cells f))
      in f\<lparr>index := map fst rs, cells := map snd rs\<rparr>)"

subsection \<open>Row labels and column headers (lines 407-425)\<close>

text \<open>
  The ways \<^verbatim>\<open>display_table\<close> ends. Each \<^verbatim>\<open>return\<close> of the source is one constructor;
  \<open>Raised\<close> is an exception that no handler of \<^verbatim>\<open>display_table\<close> catches.
\<close>

datatype outcome =
    Request_failed
  | Parse_failed
  | Store_failed
  | Convert_failed frame
  | Merge_failed frame
  | Header_failed
  | Rename_failed frame
  | Success frame
  | Raised py_error

text \<open>What the caller gets: \<^verbatim>\<open>None\<close> or a DataFrame.\<close>

fun returned :: "outcome \<Rightarrow> frame option" where
  "returned Request_failed = None"
| "returned Parse_failed = None"
| "returned Store_failed = None"
| "returned (Convert_failed df) = Some df"
| "returned (Merge_failed df) = Some df"
| "returned Header_failed = None"
| "returned (Rename_failed ret_df) = Some ret_df"
| "returned (Success ret_df) = Some ret_df"
| "returned (Raised e) = None"

text \<open>The last line printed before the return.\<close>

fun last_message :: "outcome \<Rightarrow> string" where
  "last_message Request_failed = ''ERROR!!!We encountered an error when requesting the web content!''"
| "last_message Parse_failed = ''ERROR!!!We encountered an error in parsing the table!''"
| "last_message Store_failed =
     ''ERROR!!!We encountered an error in storing the data and sections into 2 DataFrames!''"
| "last_message (Convert_failed df) = ''ERROR!!!We encountered an error in converting string into digit!''"
| "last_message (Merge_failed df) = ''ERROR!!!We encountered an error in merging 2 DataFrames!''"
| "last_message Header_failed = ''We encountered an error in framing the header''"
| "last_message (Rename_failed ret_df) =
     ''ERROR!!!We encountered an error in renaming indices and columns!''"
| "last_message (Success ret_df) = ''SUCCESS!''"
| "last_message (Raised e) = []"

text \<open>The position of a column label, \<open>None\<close> (KeyError) when there is no such column.\<close>

fun position :: "label \<Rightarrow> label list \<Rightarrow> nat option" where
  "position c [] = None"
| "position c (x # xs) =
     (if x = c then Some 0 else (case position c xs of None \<Rightarrow> None | Some j \<Rightarrow> Some (Suc j)))"

definition drop_at :: "nat \<Rightarrow> 'a list \<Rightarrow> 'a list" where
  "drop_at j xs = take j xs @ drop (Suc j) xs"

text \<open>
  \<^verbatim>\<open>ret_df.columns = header\<close>: ValueError when the number of names is not the number of
  columns; the handler returns \<open>ret_df\<close> as it is then.
\<close>

definition set_columns :: "string list \<Rightarrow> frame \<Rightarrow> outcome" where
  "set_columns header ret_df =
     (if length header = length (columns ret_df)
      then Success (ret_df\<lparr>columns := map (\<lambda>h. Cell_label (Str h)) header\<rparr>)
      else Rename_failed ret_df)"

text \<open>
  Lines 407-428. \<^verbatim>\<open>ret_df[0]\<close> raises KeyError when there is no column 0; otherwise
  column 0 becomes the index (named 0, the name of the column) and is dropped.
  \<^verbatim>\<open>statement_data['headers'][0]\<close> raises IndexError when no header row was captured.
  Both are caught by the handler of line 423, which returns \<open>ret_df\<close> as it is by then.
\<close>

definition rename_frame :: "string list list \<Rightarrow> frame \<Rightarrow> outcome" where
  "rename_frame hs ret_df =
     (case position (Int_label 0) (columns ret_df) of
        None \<Rightarrow> Rename_failed ret_df
      | Some j \<Rightarrow>
          (let ret_df1 = \<lparr>index_name = Some (Int_label 0),
                          index = map (\<lambda>r. Cell_label (r ! j)) (cells ret_df),
                          columns = drop_at j (columns ret_df),
                          cells = map (drop_at j) (cells ret_df)\<rparr>
           in case hs of
                [] \<Rightarrow> Rename_failed ret_df1
              | h0 # _ \<Rightarrow>
                  (let ret_df2 = ret_df1\<lparr>index_name := Some (Cell_label (Str (py_join '' - '' h0)))\<rparr>;
                       len_header = length hs
                   in if len_header = 2 then set_columns (hs ! 1) ret_df2
                      else if len_header = 1 then set_columns (tl h0) ret_df2
                      else Header_failed)))"

subsection \<open>\<^verbatim>\<open>display_table\<close>\<close>

text \<open>
  Lines 352-428, from the rows of the table on. \<^verbatim>\<open>pd.concat\<close> and \<^verbatim>\<open>sort_index\<close> do not
  raise on the frames built here, so the handler of line 403 is never entered.
\<close>

definition display_table_rows :: "tr list \<Rightarrow> outcome" where
  "display_table_rows rows =
     (case parse_rows empty_statement_data (enumerate 0 rows) of
        None \<Rightarrow> Parse_failed
      | Some sd \<Rightarrow>
          (case DataFrame_T (data sd) of
             Inl e \<Rightarrow> Store_failed
           | Inr df0 \<Rightarrow>
               (case DataFrame_T (sections sd) of
                  Inl e \<Rightarrow> Store_failed
                | Inr sections_df \<Rightarrow>
                    (let df1 = replace_frame df0
                     in case astype_frame df1 of
                          None \<Rightarrow> Convert_failed df1
                        | Some df \<Rightarrow>
                            rename_frame (headers sd) (sort_index (concat_frames df sections_df))))))"

text \<open>
  \<^verbatim>\<open>requests.get(table_url, ...)\<close> and the parse, inside the first \<^verbatim>\<open>try\<close>:
  \<^verbatim>\<open>table_url\<close> is \<^verbatim>\<open>None\<close> when the table name was not found, and \<^verbatim>\<open>requests.get(None)\<close>
  raises.
\<close>

definition requests_get :: "web \<Rightarrow> string option \<Rightarrow> string \<Rightarrow> py_error + soup" where
  "requests_get web url email =
     (case url of None \<Rightarrow> Inl RequestException | Some u \<Rightarrow> web u email)"

text \<open>
  \<^verbatim>\<open>display_table\<close>. An exception of \<^verbatim>\<open>get_table_url\<close> is not caught; neither is the
  AttributeError of \<^verbatim>\<open>report_soup.table.find_all\<close> when the page has no table.
\<close>

definition display_table :: "web \<Rightarrow> string \<Rightarrow> string \<Rightarrow> string \<Rightarrow> outcome" where
  "display_table web fs_url table_name email =
     (case get_table_url web fs_url email table_name of
        Inl e \<Rightarrow> Raised e
      | Inr table_url \<Rightarrow>
          (case requests_get web table_url email of
             Inl e \<Rightarrow> Request_failed
           | Inr report_soup \<Rightarrow>
               (case table report_soup of
                  None \<Rightarrow> Raised AttributeError
                | Some rows \<Rightarrow> display_table_rows rows)))"

text \<open>
  Reading the returned table as the mapping from (row label, column header) to a cell:
  the first row and the first column with these labels.
\<close>

definition cell_at :: "frame \<Rightarrow> label \<Rightarrow> label \<Rightarrow> cell option" where
  "cell_at f r c =
     (case position r (index f) of
        None \<Rightarrow> None
      | Some i \<Rightarrow>
          (case position c (columns f) of
             None \<Rightarrow> None
           | Some j \<Rightarrow> Some (cells f ! i ! j)))"

subsection \<open>Views of a table document\<close>

text \<open>
  The rows of a document by the tags the loop tests: a row with a \<^verbatim>\<open>th\<close> cell, and the
  others, which are the rows of the two dictionaries.
\<close>

definition header_rows :: "tr list \<Rightarrow> string list list" where
  "header_rows rows = map th (filter (\<lambda>r. th r \<noteq> []) rows)"

definition body_rows :: "tr list \<Rightarrow> tr list" where
  "body_rows rows = filter (\<lambda>r. th r = []) rows"

definition data_rows :: "tr list \<Rightarrow> tr list" where
  "data_rows rows = filter (\<lambda>r. th r = [] \<and> strong r = 0) rows"

definition section_rows :: "tr list \<Rightarrow> tr list" where
  "section_rows rows = filter (\<lambda>r. th r = [] \<and> strong r \<noteq> 0) rows"

text \<open>The text of column 0 of a row as a label; a row without cells has none.\<close>

definition row_label :: "tr \<Rightarrow> label" where
  "row_label r = Cell_label (case td r of [] \<Rightarrow> NaN | c # _ \<Rightarrow> Str c)"

subsection \<open>Example documents\<close>

definition e2e_rows :: "tr list" where
  "e2e_rows =
     [\<lparr>th = ['''', ''FY2021''], td = [], strong = 0\<rparr>,
      \<lparr>th = [''Label'', ''FY2021''], td = [], strong = 0\<rparr>,
      \<lparr>th = [], td = [''Net sales'', ''$100''], strong = 0\<rparr>,
      \<lparr>th = [], td = [''Operating expenses:''], strong = 1\<rparr>]"

definition e2e_rows_dates :: "tr list" where
  "e2e_rows_dates =
     [\<lparr>th = ['''', ''FY2021''], td = [], strong = 0\<rparr>,
      \<lparr>th = [''FY2021''], td = [], strong = 0\<rparr>,
      \<lparr>th = [], td = [''Net sales'', ''$100''], strong = 0\<rparr>,
      \<lparr>th = [], td = [''Operating expenses:''], strong = 1\<rparr>]"

definition e2e_url :: string where
  "e2e_url = ''https://www.sec.gov/Archives/edgar/data/320193/000032019321000105/aapl-20210925.htm''"

definition e2e_reports :: "report list" where
  "e2e_reports =
     [\<lparr>shortname = Some ''Cover Page'', htmlfilename = Some ''R1.htm''\<rparr>,
      \<lparr>shortname = Some ''CONSOLIDATED STATEMENTS OF OPERATIONS'', htmlfilename = Some ''R2.htm''\<rparr>,
      \<lparr>shortname = Some ''All Reports'', htmlfilename = None\<rparr>]"

definition e2e_web :: "tr list \<Rightarrow> web" where
  "e2e_web rows u email =
     (if u = ''https://www.sec.gov/Archives/edgar/data/320193/000032019321000105/FilingSummary.xml''
      then Inr \<lparr>myreports = Some e2e_reports, table = None\<rparr>
      else if u = ''https://www.sec.gov/Archives/edgar/data/320193/000032019321000105/R2.htm''
      then Inr \<lparr>myreports = None, table = Some rows\<rparr>
      else Inl RequestException)"

definition index_url :: string where
  "index_url = ''https://www.sec.gov/Archives/edgar/data/320193/000032019321000105/FilingSummary.xml''"

text \<open>A site that serves one filing summary, with the given reports, and nothing else.\<close>

definition index_web :: "string \<Rightarrow> report list \<Rightarrow> web" where
  "index_web loc reports u email =
     (if u = loc then Inr \<lparr>myreports = Some reports, table = None\<rparr> else Inl RequestException)"

definition dup_reports :: "report list" where
  "dup_reports =
     [\<lparr>shortname = Some ''Cover Page'', htmlfilename = Some ''R1.htm''\<rparr>,
      \<lparr>shortname = Some ''Leases'', htmlfilename = Some ''R2.htm''\<rparr>,
      \<lparr>shortname = Some ''Leases'', htmlfilename = Some ''R3.htm''\<rparr>,
      \<lparr>shortname = Some ''All Reports'', htmlfilename = None\<rparr>]"

definition single_report :: "report list" where
  "single_report = [\<lparr>shortname = Some ''Cover Page'', htmlfilename = Some ''R1.htm''\<rparr>]"

definition repeated_url :: string where
  "repeated_url = ''https://www.sec.gov/Archives/edgar/data/10/10''"

subsection \<open>What the stages compute, read off the rows\<close>

text \<open>
  The conditions under which the stages after the loop go through, and the rows they
  build, written as functions of the rows of the document. The lemmas of the last section
  prove that \<^verbatim>\<open>display_table\<close> computes them.
\<close>

definition width :: "string list list \<Rightarrow> nat" where
  "width xs = (case xs of [] \<Rightarrow> 0 | x # _ \<Rightarrow> length x)"

definition same_width :: "string list list \<Rightarrow> bool" where
  "same_width xs = list_all (\<lambda>r. length r = width xs) xs"

text \<open>A data row whose cells from column 1 on all are the text of a float after the replacements.\<close>

definition numeric_row :: "string list \<Rightarrow> bool" where
  "numeric_row tds = list_all (\<lambda>s. normalize s \<noteq> None) (tl tds)"

definition coerce_cell :: "string \<Rightarrow> cell" where
  "coerce_cell s = (case normalize s of None \<Rightarrow> Str (replace_chars s) | Some v \<Rightarrow> v)"

definition coerce_row :: "string list \<Rightarrow> cell list" where
  "coerce_row tds = (case tds of [] \<Rightarrow> [] | c # cs \<Rightarrow> Str c # map coerce_cell cs)"

definition table_width :: "tr list \<Rightarrow> nat" where
  "table_width rows = max (width (map td (data_rows rows))) (width (map td (section_rows rows)))"

definition final_row :: "nat \<Rightarrow> tr \<Rightarrow> cell list" where
  "final_row w r = pad_row w (if strong r = 0 then coerce_row (td r) else map Str (td r))"

text \<open>The positions, in the document, of the rows that have a property.\<close>

definition positions :: "(tr \<Rightarrow> bool) \<Rightarrow> tr list \<Rightarrow> nat list" where
  "positions P rows = map fst (filter (\<lambda>p. P (snd p)) (enumerate 0 rows))"

text \<open>The frame of the data rows after the replacements, before the conversion.\<close>

definition replaced_frame :: "tr list \<Rightarrow> frame" where
  "replaced_frame rows =
     \<lparr>index_name = None,
      index = map Int_label (positions (\<lambda>r. th r = [] \<and> strong r = 0) rows),
      columns = map Int_label [0..<width (map td (data_rows rows))],
      cells = map (\<lambda>r. iloc_from_1 replace_cell (map Str (td r))) (data_rows rows)\<rparr>"

text \<open>The merged and sorted frame.\<close>

definition merged_frame :: "tr list \<Rightarrow> frame" where
  "merged_frame rows =
     \<lparr>index_name = None,
      index = map Int_label (positions (\<lambda>r. th r = []) rows),
      columns = map Int_label [0..<table_width rows],
      cells = map (final_row (table_width rows)) (body_rows rows)\<rparr>"

text \<open>The entries of the two dictionaries, as positions paired with rows, and their frame.\<close>

definition data_part :: "tr list \<Rightarrow> (nat \<times> tr) list" where
  "data_part rows = filter (\<lambda>p. th (snd p) = [] \<and> strong (snd p) = 0) (enumerate 0 rows)"

definition section_part :: "tr list \<Rightarrow> (nat \<times> tr) list" where
  "section_part rows = filter (\<lambda>p. th (snd p) = [] \<and> strong (snd p) \<noteq> 0) (enumerate 0 rows)"

definition frame_of :: "(nat \<times> tr) list \<Rightarrow> frame" where
  "frame_of ps =
     \<lparr>index_name = None,
      index = map (\<lambda>p. Int_label (fst p)) ps,
      columns = map Int_label [0..<width (map (\<lambda>p. td (snd p)) ps)],
      cells = map (\<lambda>p. map Str (td (snd p))) ps\<rparr>"

text \<open>
  The merged frame after column 0 has become the index and has been dropped, with the
  name of the index as a parameter.
\<close>

definition indexed_frame :: "label option \<Rightarrow> tr list \<Rightarrow> frame" where
  "indexed_frame name rows =
     \<lparr>index_name = name,
      index = map row_label (body_rows rows),
      columns = map Int_label [1..<table_width rows],
      cells = map (\<lambda>r. tl (final_row (table_width rows) r)) (body_rows rows)\<rparr>"

definition title :: "string list \<Rightarrow> label option" where
  "title h0 = Some (Cell_label (Str (py_join '' - '' h0)))"

text \<open>
  The rows that \<^verbatim>\<open>display_table\<close> loops over: those of the table of the page at the URL
  that \<^verbatim>\<open>get_table_url\<close> returns, when all of these exist.
\<close>

definition table_rows :: "web \<Rightarrow> string \<Rightarrow> string \<Rightarrow> string \<Rightarrow> tr list option" where
  "table_rows web fs_url table_name email =
     (case get_table_url web fs_url email table_name of
        Inl e \<Rightarrow> None
      | Inr table_url \<Rightarrow>
          (case requests_get web table_url email of
             Inl e \<Rightarrow> None
           | Inr report_soup \<Rightarrow> table report_soup))"

text \<open>The two frames can be built; and the numbers of the data frame can be converted too.\<close>

definition stored :: "tr list \<Rightarrow> bool" where
  "stored rows =
     (same_width (map td (data_rows rows)) \<and> same_width (map td (section_rows rows)))"

definition converted :: "tr list \<Rightarrow> bool" where
  "converted rows = (stored rows \<and> list_all (\<lambda>r. numeric_row (td r)) (data_rows rows))"

subsection \<open>More example documents\<close>

definition e2e_name :: string where
  "e2e_name = ''CONSOLIDATED STATEMENTS OF OPERATIONS''"

definition email0 :: string where
  "email0 = ''analyst@example.com''"

text \<open>One header row with three cells over a table of two columns.\<close>

definition wide_header_rows :: "tr list" where
  "wide_header_rows =
     [\<lparr>th = [''Title'', ''2021'', ''2020''], td = [], strong = 0\<rparr>,
      \<lparr>th = [], td = [''Net sales'', ''$100''], strong = 0\<rparr>]"

definition single_header_rows :: "tr list" where
  "single_header_rows =
     [\<lparr>th = [''Title'', ''FY2021''], td = [], strong = 0\<rparr>,
      \<lparr>th = [], td = [''Net sales'', ''$100''], strong = 0\<rparr>]"

definition three_header_rows :: "tr list" where
  "three_header_rows =
     [\<lparr>th = [''Title'', ''12 Months Ended''], td = [], strong = 0\<rparr>,
      \<lparr>th = [''FY2021''], td = [], strong = 0\<rparr>,
      \<lparr>th = [''Sep. 25, 2021''], td = [], strong = 0\<rparr>,
      \<lparr>th = [], td = [''Net sales'', ''$100''], strong = 0\<rparr>]"

text \<open>A header row whose cells are set in \<^verbatim>\<open>strong\<close>.\<close>

definition strong_header_rows :: "tr list" where
  "strong_header_rows =
     [\<lparr>th = [''Title'', ''FY2021''], td = [], strong = 2\<rparr>,
      \<lparr>th = [], td = [''Net sales'', ''$100''], strong = 0\<rparr>]"

text \<open>A data cell that is not a number.\<close>

definition text_cell_rows :: "tr list" where
  "text_cell_rows =
     [\<lparr>th = [''Title'', ''FY2021''], td = [], strong = 0\<rparr>,
      \<lparr>th = [], td = [''Net sales'', ''$1,000''], strong = 0\<rparr>,
      \<lparr>th = [], td = [''Employees'', ''n/a''], strong = 0\<rparr>]"

text \<open>Data rows of different lengths, and a row without cells.\<close>

definition ragged_rows :: "tr list" where
  "ragged_rows =
     [\<lparr>th = [''Title'', ''FY2021''], td = [], strong = 0\<rparr>,
      \<lparr>th = [], td = [''Net sales'', ''$100''], strong = 0\<rparr>,
      \<lparr>th = [], td = [''Total''], strong = 0\<rparr>]"

definition empty_row_rows :: "tr list" where
  "empty_row_rows =
     [\<lparr>th = [''Title'', ''FY2021''], td = [], strong = 0\<rparr>,
      \<lparr>th = [], td = [], strong = 0\<rparr>]"

text \<open>A section row with a second cell that looks like an accounting number.\<close>

definition section_cells_rows :: "tr list" where
  "section_cells_rows =
     [\<lparr>th = [''Title'', ''FY2021''], td = [], strong = 0\<rparr>,
      \<lparr>th = [], td = [''Operating expenses:'', ''(1)''], strong = 1\<rparr>,
      \<lparr>th = [], td = [''Research'', ''(56.0)''], strong = 0\<rparr>]"

section \<open>Properties\<close>

subsection \<open>The numeric normalizer\<close>

lemmas float_defs =
  py_float_def py_strip_def is_space_def to_lower_def is_digit_def exponent_def
  nat_of_digits_def digit_val_def pow10_def replace_chars_def

text \<open>
  Claim C2. The normalizer takes \<^verbatim>\<open>$1,234.50\<close> to 1234.50, \<^verbatim>\<open>(56.0)\<close> to -56.0,
  \<^verbatim>\<open>$(1,234)\<close> to -1234 and the empty string to the missing-value marker \<open>NaN\<close>.
\<close>

theorem normalize_canonical_forms:
  "normalize ''$1,234.50'' = Some (Num 1234.5) \<and>
   normalize ''(56.0)'' = Some (Num (- 56)) \<and>
   normalize ''$(1,234)'' = Some (Num (- 1234)) \<and>
   normalize [] = Some NaN"
  by (simp add: normalize_def float_defs)

subsection \<open>The table index\<close>

lemma master_reports_length:
  "master_reports url lst rs = Inr ps \<Longrightarrow> length ps = length rs"
  by (induction rs arbitrary: ps) (auto split: option.splits sum.splits)

lemma master_reports_names:
  "master_reports url lst rs = Inr ps \<Longrightarrow> map (\<lambda>p. Some (fst p)) ps = map shortname rs"
  by (induction rs arbitrary: ps) (auto split: option.splits sum.splits)

lemma master_reports_urls:
  "master_reports url lst rs = Inr ps \<Longrightarrow>
   map (\<lambda>p. Some (snd p)) ps =
   map (\<lambda>r. map_option (\<lambda>file. py_replace lst (CHR ''/'' # file) url) (htmlfilename r)) rs"
  by (induction rs arbitrary: ps) (auto split: option.splits sum.splits)

lemma master_reports_total:
  "list_all (\<lambda>r. shortname r \<noteq> None \<and> htmlfilename r \<noteq> None) rs \<Longrightarrow>
   \<exists>ps. master_reports url lst rs = Inr ps"
  by (induction rs) auto

text \<open>
  With two index entries or more, each of them but the last with a short name and a file
  name, \<^verbatim>\<open>get_table_info\<close> returns one pair for each entry but the last, in the order of
  the document.
\<close>

lemma get_table_info_count:
  assumes "py_last (findall_segments url) = Inr lst"
    and "web (py_replace lst ''/FilingSummary.xml'' url) email = Inr page"
    and "myreports page = Some reports"
    and "2 \<le> length reports"
    and "list_all (\<lambda>r. shortname r \<noteq> None \<and> htmlfilename r \<noteq> None) (butlast reports)"
  shows "\<exists>ps. get_table_info web url email = Inr ps \<and> length ps = length reports - 1 \<and>
           map (\<lambda>p. Some (fst p)) ps = map shortname (butlast reports)"
proof -
  obtain ps where ps: "master_reports url lst (butlast reports) = Inr ps"
    using master_reports_total [OF assms(5)] by blast
  have len: "length ps = length reports - 1"
    using master_reports_length [OF ps] by simp
  with assms(4) have "ps \<noteq> []" by auto
  then have "get_table_info web url email = Inr ps"
    using assms(1-3) ps by (simp add: get_table_info_def)
  with len master_reports_names [OF ps] show ?thesis by blast
qed

text \<open>
  Claim C6, at an index with a single entry: the entry is dropped, no pair is left, and
  \<^verbatim>\<open>df_tables['name_short']\<close> raises KeyError where the claim has an empty result.
\<close>

theorem get_table_info_single_entry:
  "get_table_info (index_web index_url single_report) e2e_url ''analyst@example.com'' = Inl KeyError"
  by (simp add: get_table_info_def index_web_def index_url_def single_report_def e2e_url_def py_last_def)

text \<open>
  Claim C7. On the output of the resolver, \<^verbatim>\<open>get_table_url\<close> returns the URL of the first
  entry with the name, in the order of the document (so the URL of the only one when one
  entry has the name); it returns \<^verbatim>\<open>None\<close> when no entry has the name; and it raises only
  what \<^verbatim>\<open>get_table_info\<close> raises, so a name that is not found is not a failed request.
\<close>

theorem get_table_url_first_match:
  "(get_table_info web fs_url email = Inr (pre @ (name, url) # post) \<and> name \<notin> fst ` set pre
      \<longrightarrow> get_table_url web fs_url email name = Inr (Some url)) \<and>
   (get_table_info web fs_url email = Inr table_info \<and> name \<notin> fst ` set table_info
      \<longrightarrow> get_table_url web fs_url email name = Inr None) \<and>
   (get_table_info web fs_url email = Inl e
      \<longrightarrow> get_table_url web fs_url email name = Inl e)"
proof -
  have none: "filter (\<lambda>p. fst p = name) xs = []" if "name \<notin> fst ` set xs"
    for xs :: "(string \<times> string) list"
    using that by (induction xs) auto
  show ?thesis
    by (auto simp: get_table_url_def none)
qed

theorem get_table_url_first_match_witness:
  "get_table_url (index_web index_url dup_reports) e2e_url ''analyst@example.com'' ''Leases''
     = Inr (Some ''https://www.sec.gov/Archives/edgar/data/320193/000032019321000105/R2.htm'') \<and>
   get_table_url (index_web index_url dup_reports) e2e_url ''analyst@example.com'' ''Cover Page''
     = Inr (Some ''https://www.sec.gov/Archives/edgar/data/320193/000032019321000105/R1.htm'') \<and>
   get_table_url (index_web index_url dup_reports) e2e_url ''analyst@example.com'' ''Balance''
     = Inr None \<and>
   get_table_url (index_web [] dup_reports) e2e_url ''analyst@example.com'' ''Leases''
     = Inl RequestException"
proof -
  let ?web = "index_web index_url dup_reports"
  let ?dir = "''https://www.sec.gov/Archives/edgar/data/320193/000032019321000105''"
  have info: "get_table_info ?web e2e_url ''analyst@example.com'' =
      Inr ([(''Cover Page'', ?dir @ ''/R1.htm'')] @ (''Leases'', ?dir @ ''/R2.htm'')
             # [(''Leases'', ?dir @ ''/R3.htm'')])"
    by (simp add: get_table_info_def index_web_def index_url_def dup_reports_def e2e_url_def
        py_last_def)
  have info': "get_table_info ?web e2e_url ''analyst@example.com'' =
      Inr ([] @ (''Cover Page'', ?dir @ ''/R1.htm'')
             # [(''Leases'', ?dir @ ''/R2.htm''), (''Leases'', ?dir @ ''/R3.htm'')])"
    using info by simp
  have fail: "get_table_info (index_web [] dup_reports) e2e_url ''analyst@example.com''
      = Inl RequestException"
    by (simp add: get_table_info_def index_web_def e2e_url_def py_last_def)
  have a: "get_table_url ?web e2e_url ''analyst@example.com'' ''Leases''
      = Inr (Some (?dir @ ''/R2.htm''))"
    using get_table_url_first_match [of ?web e2e_url "''analyst@example.com''"
        "[(''Cover Page'', ?dir @ ''/R1.htm'')]" "''Leases''" "?dir @ ''/R2.htm''"
        "[(''Leases'', ?dir @ ''/R3.htm'')]"] info
    by simp
  have b: "get_table_url ?web e2e_url ''analyst@example.com'' ''Cover Page''
      = Inr (Some (?dir @ ''/R1.htm''))"
    using get_table_url_first_match [of ?web e2e_url "''analyst@example.com''"
        "[]" "''Cover Page''" "?dir @ ''/R1.htm''"
        "[(''Leases'', ?dir @ ''/R2.htm''), (''Leases'', ?dir @ ''/R3.htm'')]"] info'
    by simp
  have c: "get_table_url ?web e2e_url ''analyst@example.com'' ''Balance'' = Inr None"
    using get_table_url_first_match [of ?web e2e_url "''analyst@example.com''" _ "''Balance''" _ _
        "[(''Cover Page'', ?dir @ ''/R1.htm''), (''Leases'', ?dir @ ''/R2.htm''),
          (''Leases'', ?dir @ ''/R3.htm'')]"] info
    by simp
  have d: "get_table_url (index_web [] dup_reports) e2e_url ''analyst@example.com'' ''Leases''
      = Inl RequestException"
    using get_table_url_first_match [of "index_web [] dup_reports" e2e_url
        "''analyst@example.com''" _ "''Leases''" _ _ _ RequestException] fail
    by simp
  from a b c d show ?thesis by simp
qed

text \<open>
  Claim C8, at a statement URL whose last segment is also the text of an earlier one:
  \<^verbatim>\<open>url.replace(lst, ...)\<close> replaces both, so the page requested and the table URLs
  differ from the statement URL in more than the last segment.
\<close>

theorem get_table_info_repeated_segment:
  "py_last (findall_segments repeated_url) = Inr ''/10'' \<and>
   py_replace ''/10'' ''/FilingSummary.xml'' repeated_url
     = ''https://www.sec.gov/Archives/edgar/data/FilingSummary.xml/FilingSummary.xml'' \<and>
   get_table_info
     (index_web ''https://www.sec.gov/Archives/edgar/data/FilingSummary.xml/FilingSummary.xml''
        e2e_reports)
     repeated_url ''analyst@example.com''
     = Inr [(''Cover Page'', ''https://www.sec.gov/Archives/edgar/data/R1.htm/R1.htm''),
            (''CONSOLIDATED STATEMENTS OF OPERATIONS'',
             ''https://www.sec.gov/Archives/edgar/data/R2.htm/R2.htm'')]"
  by (simp add: get_table_info_def index_web_def e2e_reports_def repeated_url_def py_last_def)

subsection \<open>The stages of \<^verbatim>\<open>display_table\<close>\<close>


lemma parse_rows_app:
  "parse_rows sd rs = Some
     \<lparr>headers = headers sd @ map (\<lambda>p. th (snd p)) (filter (\<lambda>p. th (snd p) \<noteq> []) rs),
      sections = sections sd @ map (\<lambda>p. (fst p, td (snd p)))
                   (filter (\<lambda>p. th (snd p) = [] \<and> strong (snd p) \<noteq> 0) rs),
      data = data sd @ map (\<lambda>p. (fst p, td (snd p)))
                   (filter (\<lambda>p. th (snd p) = [] \<and> strong (snd p) = 0) rs)\<rparr>"
proof (induction rs arbitrary: sd)
  case Nil
  then show ?case by simp
next
  case (Cons p rs)
  obtain i row where p: "p = (i, row)" by (cases p)
  show ?case unfolding p by (simp add: Cons.IH)
qed

lemma filter_snd_enumerate:
  "map snd (filter (\<lambda>p. P (snd p)) (enumerate n xs)) = filter P xs"
  by (induction xs arbitrary: n) auto

lemma parse_rows_document:
  "parse_rows empty_statement_data (enumerate 0 rows) = Some
     \<lparr>headers = header_rows rows,
      sections = map (\<lambda>p. (fst p, td (snd p)))
                   (filter (\<lambda>p. th (snd p) = [] \<and> strong (snd p) \<noteq> 0) (enumerate 0 rows)),
      data = map (\<lambda>p. (fst p, td (snd p)))
                   (filter (\<lambda>p. th (snd p) = [] \<and> strong (snd p) = 0) (enumerate 0 rows))\<rparr>"
proof -
  have "map (\<lambda>p. th (snd p)) (filter (\<lambda>p. th (snd p) \<noteq> []) (enumerate 0 rows)) = header_rows rows"
    using filter_snd_enumerate [of "\<lambda>r. th r \<noteq> []" 0 rows]
    by (simp add: header_rows_def flip: map_map [of th snd, unfolded comp_def])
  then show ?thesis
    by (simp add: parse_rows_app empty_statement_data_def)
qed

lemma those_map_Some:
  "(\<And>x. x \<in> set xs \<Longrightarrow> f x = Some (g x)) \<Longrightarrow> those (map f xs) = Some (map g xs)"
  by (induction xs) auto

lemma those_map_None:
  "x \<in> set xs \<Longrightarrow> f x = None \<Longrightarrow> those (map f xs) = None"
  by (induction xs) (auto split: option.splits)

lemma astype_row_numeric:
  "numeric_row tds \<Longrightarrow> astype_row (iloc_from_1 replace_cell (map Str tds)) = Some (coerce_row tds)"
proof (cases tds)
  case Nil
  then show ?thesis by (simp add: astype_row_def iloc_from_1_def coerce_row_def)
next
  case (Cons c cs)
  assume "numeric_row tds"
  then have "\<And>s. s \<in> set cs \<Longrightarrow> astype_float (replace_cell (Str s)) = Some (coerce_cell s)"
    by (auto simp: Cons numeric_row_def list_all_iff coerce_cell_def normalize_def)
  then have "those (map astype_float (map replace_cell (map Str cs))) = Some (map coerce_cell cs)"
    using those_map_Some [of cs "\<lambda>s. astype_float (replace_cell (Str s))" coerce_cell]
    by (simp add: comp_def)
  then show ?thesis
    by (simp add: Cons astype_row_def iloc_from_1_def coerce_row_def)
qed

lemma astype_row_not_numeric:
  "\<not> numeric_row tds \<Longrightarrow> astype_row (iloc_from_1 replace_cell (map Str tds)) = None"
proof (cases tds)
  case Nil
  assume "\<not> numeric_row tds"
  then show ?thesis by (simp add: Nil numeric_row_def)
next
  case (Cons c cs)
  assume "\<not> numeric_row tds"
  then obtain s where "s \<in> set cs" "astype_float (replace_cell (Str s)) = None"
    by (auto simp: Cons numeric_row_def list_all_iff normalize_def)
  then have "those (map astype_float (map replace_cell (map Str cs))) = None"
    using those_map_None [of s cs "\<lambda>s. astype_float (replace_cell (Str s))"]
    by (simp add: comp_def)
  then show ?thesis
    by (simp add: Cons astype_row_def iloc_from_1_def)
qed

lemma insort_key_map:
  "insort_key f (h x) (map h xs) = map h (insort_key (\<lambda>y. f (h y)) x xs)"
  by (induction xs) auto

lemma sort_key_map:
  "sort_key f (map h xs) = map h (sort_key (\<lambda>y. f (h y)) xs)"
  by (induction xs) (auto simp: insort_key_map)

lemma filter_key_distinct:
  "distinct (map f zs) \<Longrightarrow> k \<in> set zs \<Longrightarrow> filter (\<lambda>x. f k = f x) zs = [k]"
proof (induction zs)
  case Nil
  then show ?case by simp
next
  case (Cons z zs)
  show ?case
  proof (cases "k = z")
    case True
    have "filter (\<lambda>x. f z = f x) zs = []"
      using Cons.prems(1) by (auto simp: filter_empty_conv)
    then show ?thesis using True by simp
  next
    case False
    then have "k \<in> set zs" using Cons.prems(2) by simp
    moreover have "f k \<noteq> f z" using Cons.prems(1) \<open>k \<in> set zs\<close> by (auto simp: image_iff)
    ultimately show ?thesis using Cons by simp
  qed
qed

lemma sort_key_split:
  fixes f :: "'a \<Rightarrow> nat"
  assumes "sorted (map f xs)" and "distinct (map f xs)"
  shows "sort_key f (filter (\<lambda>x. P x \<and> Q x) xs @ filter (\<lambda>x. P x \<and> \<not> Q x) xs) = filter P xs"
proof (rule properties_for_sort_key)
  show "mset (filter P xs) = mset (filter (\<lambda>x. P x \<and> Q x) xs @ filter (\<lambda>x. P x \<and> \<not> Q x) xs)"
    by (induction xs) auto
next
  fix k assume k: "k \<in> set (filter P xs)"
  have d1: "distinct (map f (filter P xs))"
    using assms(2) by (simp add: distinct_map_filter)
  have "distinct (map f (filter (\<lambda>x. P x \<and> Q x) xs)) \<and> distinct (map f (filter (\<lambda>x. P x \<and> \<not> Q x) xs))"
    using assms(2) by (simp add: distinct_map_filter)
  moreover have "f ` set (filter (\<lambda>x. P x \<and> Q x) xs) \<inter> f ` set (filter (\<lambda>x. P x \<and> \<not> Q x) xs) = {}"
    using assms(2) by (auto simp: distinct_map inj_on_def)
  ultimately have d2: "distinct (map f (filter (\<lambda>x. P x \<and> Q x) xs @ filter (\<lambda>x. P x \<and> \<not> Q x) xs))"
    by simp
  have k2: "k \<in> set (filter (\<lambda>x. P x \<and> Q x) xs @ filter (\<lambda>x. P x \<and> \<not> Q x) xs)"
    using k by auto
  show "filter (\<lambda>x. f k = f x) (filter P xs)
      = filter (\<lambda>x. f k = f x) (filter (\<lambda>x. P x \<and> Q x) xs @ filter (\<lambda>x. P x \<and> \<not> Q x) xs)"
    using filter_key_distinct [OF d1 k] filter_key_distinct [OF d2 k2] by simp
next
  show "sorted (map f (filter P xs))"
    using assms(1) by (rule sorted_filter)
qed

lemma enumerate_keys: "map fst (enumerate n xs) = [n..<n + length xs]"
  by (simp add: enumerate_eq_zip)

lemma DataFrame_T_rows:
  fixes ps :: "(nat \<times> tr) list"
  shows "DataFrame_T (map (\<lambda>p. (fst p, td (snd p))) ps) =
     (if same_width (map (\<lambda>p. td (snd p)) ps)
      then Inr \<lparr>index_name = None,
                index = map (\<lambda>p. Int_label (fst p)) ps,
                columns = map Int_label [0..<width (map (\<lambda>p. td (snd p)) ps)],
                cells = map (\<lambda>p. map Str (td (snd p))) ps\<rparr>
      else Inl ValueError)"
proof -
  have w: "row_width (map (\<lambda>p. (fst p, td (snd p))) ps) = width (map (\<lambda>p. td (snd p)) ps)"
    by (cases ps) (simp_all add: row_width_def width_def)
  show ?thesis
    by (simp add: DataFrame_T_def same_width_def w list_all_iff comp_def)
qed

lemma data_rows_enumerate:
  "map (\<lambda>p. td (snd p)) (filter (\<lambda>p. th (snd p) = [] \<and> strong (snd p) = 0) (enumerate 0 rows))
     = map td (data_rows rows)"
  using filter_snd_enumerate [of "\<lambda>r. th r = [] \<and> strong r = 0" 0 rows]
  by (simp add: data_rows_def flip: map_map [of td snd, unfolded comp_def])

lemma section_rows_enumerate:
  "map (\<lambda>p. td (snd p)) (filter (\<lambda>p. th (snd p) = [] \<and> strong (snd p) \<noteq> 0) (enumerate 0 rows))
     = map td (section_rows rows)"
  using filter_snd_enumerate [of "\<lambda>r. th r = [] \<and> strong r \<noteq> 0" 0 rows]
  by (simp add: section_rows_def flip: map_map [of td snd, unfolded comp_def])

lemma display_table_rows_stages:
  "display_table_rows rows =
     (if same_width (map td (data_rows rows)) \<and> same_width (map td (section_rows rows))
      then (case astype_frame (replace_frame (frame_of (data_part rows))) of
              None \<Rightarrow> Convert_failed (replace_frame (frame_of (data_part rows)))
            | Some df \<Rightarrow>
                rename_frame (header_rows rows)
                  (sort_index (concat_frames df (frame_of (section_part rows)))))
      else Store_failed)"
proof -
  have parse: "parse_rows empty_statement_data (enumerate 0 rows) = Some
     \<lparr>headers = header_rows rows,
      sections = map (\<lambda>p. (fst p, td (snd p))) (section_part rows),
      data = map (\<lambda>p. (fst p, td (snd p))) (data_part rows)\<rparr>"
    unfolding data_part_def section_part_def by (rule parse_rows_document)
  have d: "map (\<lambda>p. td (snd p)) (data_part rows) = map td (data_rows rows)"
    unfolding data_part_def by (rule data_rows_enumerate)
  have s: "map (\<lambda>p. td (snd p)) (section_part rows) = map td (section_rows rows)"
    unfolding section_part_def by (rule section_rows_enumerate)
  have dfD: "DataFrame_T (map (\<lambda>p. (fst p, td (snd p))) (data_part rows)) =
      (if same_width (map td (data_rows rows)) then Inr (frame_of (data_part rows))
       else Inl ValueError)"
    unfolding DataFrame_T_rows d frame_of_def ..
  have dfS: "DataFrame_T (map (\<lambda>p. (fst p, td (snd p))) (section_part rows)) =
      (if same_width (map td (section_rows rows)) then Inr (frame_of (section_part rows))
       else Inl ValueError)"
    unfolding DataFrame_T_rows s frame_of_def ..
  show ?thesis
    unfolding display_table_rows_def parse
    by (simp add: dfD dfS Let_def split: option.split)
qed


lemma data_part_rows: "map snd (data_part rows) = data_rows rows"
  unfolding data_part_def data_rows_def by (rule filter_snd_enumerate)

lemma section_part_rows: "map snd (section_part rows) = section_rows rows"
  unfolding section_part_def section_rows_def by (rule filter_snd_enumerate)

lemma replace_frame_data_part:
  "replace_frame (frame_of (data_part rows)) = replaced_frame rows"
proof -
  have "map (\<lambda>p. td (snd p)) (data_part rows) = map td (data_rows rows)"
    by (simp flip: data_part_rows)
  moreover have "map (\<lambda>p. iloc_from_1 replace_cell (map Str (td (snd p)))) (data_part rows)
      = map (\<lambda>r. iloc_from_1 replace_cell (map Str (td r))) (data_rows rows)"
    by (simp flip: data_part_rows)
  ultimately show ?thesis
    by (simp add: replace_frame_def frame_of_def replaced_frame_def positions_def data_part_def
        comp_def)
qed

lemma astype_frame_replaced:
  "astype_frame (replaced_frame rows) =
     (if list_all (\<lambda>r. numeric_row (td r)) (data_rows rows)
      then Some ((replaced_frame rows)\<lparr>cells := map (\<lambda>r. coerce_row (td r)) (data_rows rows)\<rparr>)
      else None)"
proof (cases "list_all (\<lambda>r. numeric_row (td r)) (data_rows rows)")
  case True
  then have "\<And>r. r \<in> set (data_rows rows) \<Longrightarrow>
      astype_row (iloc_from_1 replace_cell (map Str (td r))) = Some (coerce_row (td r))"
    by (simp add: list_all_iff astype_row_numeric)
  then have "those (map (\<lambda>r. astype_row (iloc_from_1 replace_cell (map Str (td r)))) (data_rows rows))
      = Some (map (\<lambda>r. coerce_row (td r)) (data_rows rows))"
    by (rule those_map_Some)
  then show ?thesis
    using True by (simp add: astype_frame_def replaced_frame_def comp_def)
next
  case False
  then obtain r where "r \<in> set (data_rows rows)" "\<not> numeric_row (td r)"
    by (auto simp: list_all_iff)
  then have "those (map (\<lambda>r. astype_row (iloc_from_1 replace_cell (map Str (td r)))) (data_rows rows))
      = None"
    using those_map_None [of r "data_rows rows"
        "\<lambda>r. astype_row (iloc_from_1 replace_cell (map Str (td r)))"]
    by (simp add: astype_row_not_numeric)
  then show ?thesis
    using False by (simp add: astype_frame_def replaced_frame_def comp_def)
qed

lemma body_sorted:
  "sort_key fst (data_part rows @ section_part rows)
     = filter (\<lambda>p. th (snd p) = []) (enumerate 0 rows)"
proof -
  have "sorted (map fst (enumerate 0 rows))" "distinct (map fst (enumerate 0 rows))"
    by (simp_all add: enumerate_keys)
  then show ?thesis
    unfolding data_part_def section_part_def
    by (rule sort_key_split [where P = "\<lambda>p. th (snd p) = []" and Q = "\<lambda>p. strong (snd p) = 0"])
qed

lemma merged:
  assumes "list_all (\<lambda>r. numeric_row (td r)) (data_rows rows)"
  shows "sort_index (concat_frames
           ((replaced_frame rows)\<lparr>cells := map (\<lambda>r. coerce_row (td r)) (data_rows rows)\<rparr>)
           (frame_of (section_part rows)))
         = merged_frame rows"
proof -
  let ?w = "table_width rows"
  let ?h = "\<lambda>p. (Int_label (fst p), final_row ?w (snd p))"
  let ?df = "(replaced_frame rows)\<lparr>cells := map (\<lambda>r. coerce_row (td r)) (data_rows rows)\<rparr>"
  let ?c = "concat_frames ?df (frame_of (section_part rows))"
  have w: "max (length (columns ?df)) (length (columns (frame_of (section_part rows)))) = ?w"
    by (simp add: replaced_frame_def frame_of_def table_width_def comp_def flip: section_part_rows)
  have ix: "index ?c = map (\<lambda>p. Int_label (fst p)) (data_part rows @ section_part rows)"
    by (simp add: concat_frames_def Let_def replaced_frame_def frame_of_def positions_def
        data_part_def comp_def)
  have cd: "map (\<lambda>r. pad_row ?w (coerce_row (td r))) (data_rows rows)
      = map (\<lambda>p. final_row ?w (snd p)) (data_part rows)"
    by (auto simp: final_row_def data_part_def simp flip: data_part_rows)
  have cs: "map (\<lambda>p. pad_row ?w (map Str (td (snd p)))) (section_part rows)
      = map (\<lambda>p. final_row ?w (snd p)) (section_part rows)"
    by (auto simp: final_row_def section_part_def)
  have ce: "cells ?c = map (\<lambda>p. final_row ?w (snd p)) (data_part rows @ section_part rows)"
    using cd cs w by (simp add: concat_frames_def Let_def frame_of_def comp_def)
  have z: "zip (index ?c) (cells ?c) = map ?h (data_part rows @ section_part rows)"
    unfolding ix ce by (simp add: zip_map_map zip_same_conv_map)
  have s: "sort_key (\<lambda>p. label_key (fst p)) (zip (index ?c) (cells ?c))
      = map ?h (filter (\<lambda>p. th (snd p) = []) (enumerate 0 rows))"
    unfolding z sort_key_map by (simp add: body_sorted)
  have b: "map snd (filter (\<lambda>p. th (snd p) = []) (enumerate 0 rows)) = body_rows rows"
    unfolding body_rows_def by (rule filter_snd_enumerate)
  have cols: "columns ?c = map Int_label [0..<?w]"
    using w by (simp add: concat_frames_def Let_def)
  have nm: "index_name ?c = None"
    by (simp add: concat_frames_def Let_def)
  show ?thesis
    unfolding sort_index_def Let_def s merged_frame_def
    using cols nm by (simp add: comp_def positions_def flip: b)
qed

lemma display_table_rows_cases:
  "display_table_rows rows =
     (if same_width (map td (data_rows rows)) \<and> same_width (map td (section_rows rows))
      then if list_all (\<lambda>r. numeric_row (td r)) (data_rows rows)
           then rename_frame (header_rows rows) (merged_frame rows)
           else Convert_failed (replaced_frame rows)
      else Store_failed)"
  by (simp add: display_table_rows_stages replace_frame_data_part astype_frame_replaced merged)

lemma position_columns:
  "position (Int_label 0) (map Int_label [0..<w]) = (if w = 0 then None else Some 0)"
  by (cases w) (simp_all add: upt_conv_Cons del: upt_Suc)

lemma final_row_label:
  "0 < w \<Longrightarrow> Cell_label (final_row w r ! 0) = row_label r"
  by (cases "td r"; cases w) (simp_all add: final_row_def pad_row_def coerce_row_def row_label_def)

lemma drop_at_0: "drop_at 0 xs = tl xs"
  by (simp add: drop_at_def drop_Suc)

lemma tl_columns: "tl (map Int_label [0..<w]) = map Int_label [1..<w]"
  by (cases w) (simp_all add: upt_conv_Cons del: upt_Suc)

lemma rename_merged:
  "rename_frame hs (merged_frame rows) =
     (if table_width rows = 0 then Rename_failed (merged_frame rows)
      else case hs of
             [] \<Rightarrow> Rename_failed (indexed_frame (Some (Int_label 0)) rows)
           | h0 # _ \<Rightarrow>
               if length hs = 2 then set_columns (hs ! 1) (indexed_frame (title h0) rows)
               else if length hs = 1 then set_columns (tl h0) (indexed_frame (title h0) rows)
               else Header_failed)"
proof (cases "table_width rows = 0")
  case True
  then show ?thesis
    by (simp add: rename_frame_def merged_frame_def position_columns)
next
  case False
  then have pos: "position (Int_label 0) (columns (merged_frame rows)) = Some 0"
    by (simp add: merged_frame_def position_columns)
  have ix: "map (\<lambda>r. Cell_label (r ! 0)) (cells (merged_frame rows)) = map row_label (body_rows rows)"
    using False by (simp add: merged_frame_def final_row_label comp_def)
  have f1: "\<lparr>index_name = nm,
             index = map (\<lambda>r. Cell_label (r ! 0)) (cells (merged_frame rows)),
             columns = drop_at 0 (columns (merged_frame rows)),
             cells = map (drop_at 0) (cells (merged_frame rows))\<rparr> = indexed_frame nm rows" for nm
    unfolding ix by (simp add: indexed_frame_def merged_frame_def drop_at_0 tl_columns comp_def)
  have nm: "(indexed_frame nm rows)\<lparr>index_name := nm'\<rparr> = indexed_frame nm' rows" for nm nm'
    by (simp add: indexed_frame_def)
  show ?thesis
  proof (cases hs)
    case Nil
    then show ?thesis using False by (simp add: rename_frame_def pos f1)
  next
    case (Cons h0 hs')
    then show ?thesis using False
      by (simp add: rename_frame_def pos f1 Let_def title_def nm)
  qed
qed

lemma display_table_rows_outcome:
  "display_table_rows rows =
     (if same_width (map td (data_rows rows)) \<and> same_width (map td (section_rows rows))
      then if list_all (\<lambda>r. numeric_row (td r)) (data_rows rows)
           then if table_width rows = 0 then Rename_failed (merged_frame rows)
                else case header_rows rows of
                       [] \<Rightarrow> Rename_failed (indexed_frame (Some (Int_label 0)) rows)
                     | h0 # _ \<Rightarrow>
                         if length (header_rows rows) = 2
                         then set_columns (header_rows rows ! 1) (indexed_frame (title h0) rows)
                         else if length (header_rows rows) = 1
                         then set_columns (tl h0) (indexed_frame (title h0) rows)
                         else Header_failed
           else Convert_failed (replaced_frame rows)
      else Store_failed)"
  by (simp add: display_table_rows_cases rename_merged)

lemma set_columns_Success:
  "set_columns header f = Success g \<Longrightarrow>
   g = f\<lparr>columns := map (\<lambda>h. Cell_label (Str h)) header\<rparr> \<and> length header = length (columns f)"
  by (auto simp: set_columns_def split: if_splits)

lemma display_table_rows_Success:
  assumes "display_table_rows rows = Success f"
  shows "same_width (map td (data_rows rows)) \<and> same_width (map td (section_rows rows)) \<and>
         list_all (\<lambda>r. numeric_row (td r)) (data_rows rows) \<and> table_width rows \<noteq> 0 \<and>
         (\<exists>h0 hs header. header_rows rows = h0 # hs \<and>
            f = (indexed_frame (title h0) rows)\<lparr>columns := map (\<lambda>h. Cell_label (Str h)) header\<rparr> \<and>
            length header = table_width rows - 1 \<and>
            (length (header_rows rows) = 2 \<and> header = header_rows rows ! 1 \<or>
             length (header_rows rows) = 1 \<and> header = tl h0))"
  using assms unfolding display_table_rows_outcome
  by (auto split: if_splits list.splits dest!: set_columns_Success simp: indexed_frame_def)

lemma display_table_Success:
  "display_table web fs_url table_name email = Success f \<Longrightarrow>
   \<exists>rows. table_rows web fs_url table_name email = Some rows \<and> display_table_rows rows = Success f"
  by (auto simp: display_table_def table_rows_def split: sum.splits option.splits)

subsection \<open>The example documents, evaluated\<close>

lemma e2e_lookup:
  "get_table_url (e2e_web rows) e2e_url email0 e2e_name
     = Inr (Some ''https://www.sec.gov/Archives/edgar/data/320193/000032019321000105/R2.htm'')"
  by (simp add: get_table_url_def get_table_info_def e2e_web_def e2e_reports_def e2e_url_def
      e2e_name_def py_last_def)

lemma e2e_display:
  "display_table (e2e_web rows) e2e_url e2e_name email0 = display_table_rows rows"
  by (simp add: display_table_def e2e_lookup requests_get_def e2e_web_def)

lemma e2e_table_rows:
  "table_rows (e2e_web rows) e2e_url e2e_name email0 = Some rows"
  by (simp add: table_rows_def e2e_lookup requests_get_def e2e_web_def)

lemmas stage_defs =
  display_table_rows_def empty_statement_data_def enumerate_eq_zip DataFrame_T_def row_width_def
  replace_frame_def iloc_from_1_def astype_frame_def astype_row_def concat_frames_def pad_row_def
  sort_index_def rename_frame_def set_columns_def drop_at_def Let_def

lemmas view_defs =
  header_rows_def body_rows_def data_rows_def section_rows_def row_label_def width_def
  same_width_def numeric_row_def normalize_def table_width_def stored_def converted_def

lemma e2e_given:
  "display_table_rows e2e_rows = Rename_failed
     \<lparr>index_name = Some (Cell_label (Str '' - FY2021'')),
      index = [Cell_label (Str ''Net sales''), Cell_label (Str ''Operating expenses:'')],
      columns = [Int_label 1],
      cells = [[Num 100], [NaN]]\<rparr>"
  by (simp add: e2e_rows_def stage_defs float_defs upt_conv_Cons del: upt_Suc)

lemma e2e_dates:
  "display_table_rows e2e_rows_dates = Success
     \<lparr>index_name = Some (Cell_label (Str '' - FY2021'')),
      index = [Cell_label (Str ''Net sales''), Cell_label (Str ''Operating expenses:'')],
      columns = [Cell_label (Str ''FY2021'')],
      cells = [[Num 100], [NaN]]\<rparr>"
  by (simp add: e2e_rows_dates_def stage_defs float_defs upt_conv_Cons del: upt_Suc)

subsection \<open>Order of the rows\<close>

text \<open>
  Claim C1. When \<^verbatim>\<open>display_table\<close> returns the finished table, its row labels are the
  texts of column 0 of the rows without a \<^verbatim>\<open>th\<close> cell, data rows and section rows in
  any interleaving, in the order of the document: sorting the concatenation of the two
  frames by row position gives back that order (lemma \<open>body_sorted\<close>).
\<close>

theorem row_labels_in_document_order:
  "display_table web fs_url table_name email = Success f \<Longrightarrow>
   \<exists>rows. table_rows web fs_url table_name email = Some rows \<and>
          index f = map row_label (body_rows rows)"
proof -
  assume "display_table web fs_url table_name email = Success f"
  then obtain rows where r: "table_rows web fs_url table_name email = Some rows"
    and s: "display_table_rows rows = Success f"
    using display_table_Success by blast
  from display_table_rows_Success [OF s] have "index f = map row_label (body_rows rows)"
    by (auto simp: indexed_frame_def)
  with r show ?thesis by blast
qed

theorem row_labels_in_document_order_witness:
  "display_table (e2e_web e2e_rows_dates) e2e_url e2e_name email0 = Success
     \<lparr>index_name = Some (Cell_label (Str '' - FY2021'')),
      index = [Cell_label (Str ''Net sales''), Cell_label (Str ''Operating expenses:'')],
      columns = [Cell_label (Str ''FY2021'')],
      cells = [[Num 100], [NaN]]\<rparr> \<and>
   [Cell_label (Str ''Net sales''), Cell_label (Str ''Operating expenses:'')]
     = map row_label (body_rows e2e_rows_dates)"
proof -
  let ?f = "\<lparr>index_name = Some (Cell_label (Str '' - FY2021'')),
      index = [Cell_label (Str ''Net sales''), Cell_label (Str ''Operating expenses:'')],
      columns = [Cell_label (Str ''FY2021'')],
      cells = [[Num 100], [NaN]]\<rparr>"
  have s: "display_table (e2e_web e2e_rows_dates) e2e_url e2e_name email0 = Success ?f"
    by (simp add: e2e_display e2e_dates)
  from row_labels_in_document_order [OF s] e2e_table_rows [of e2e_rows_dates]
  have "index ?f = map row_label (body_rows e2e_rows_dates)" by auto
  with s show ?thesis by simp
qed

subsection \<open>What the conversion touches\<close>

lemma numeric_normalize:
  "list_all (\<lambda>s. normalize s \<noteq> None) cs \<Longrightarrow> map Some (map coerce_cell cs) = map normalize cs"
  by (induction cs) (auto simp: coerce_cell_def)

lemma tl_final_row_section:
  "strong r \<noteq> 0 \<Longrightarrow> take (length (td r) - Suc 0) (tl (final_row w r)) = map Str (tl (td r))"
  by (cases "td r") (simp_all add: final_row_def pad_row_def)

lemma tl_final_row_data:
  assumes "strong r = 0" and "numeric_row (td r)"
  shows "map Some (take (length (td r) - Suc 0) (tl (final_row w r))) = map normalize (tl (td r))"
proof (cases "td r")
  case Nil
  then show ?thesis by simp
next
  case (Cons c cs)
  have "take (length cs) (tl (final_row w r)) = map coerce_cell cs"
    using assms(1) by (simp add: Cons final_row_def pad_row_def coerce_row_def)
  moreover have "map Some (map coerce_cell cs) = map normalize cs"
    using assms(2) by (intro numeric_normalize) (simp add: Cons numeric_row_def)
  ultimately show ?thesis
    by (simp add: Cons)
qed

lemma row_label_text: "td r \<noteq> [] \<Longrightarrow> row_label r = Cell_label (Str (hd (td r)))"
  by (cases "td r") (simp_all add: row_label_def)

lemma take_1_replaced:
  "take (Suc 0) (iloc_from_1 replace_cell (map Str tds)) = map Str (take (Suc 0) tds)"
  by (cases tds) (simp_all add: iloc_from_1_def)

text \<open>
  Claim C9. In the finished table, the label of a row is the text of its column 0 as it
  was in the document, and the cells of a section row are its texts from column 1 on, as
  strings; only the cells of a data row from column 1 on are the values of the
  normalizer. The frame returned when the conversion fails has column 0 of the data rows
  unchanged as well.
\<close>

theorem coercion_leaves_labels_and_sections:
  "(display_table_rows rows = Success f \<and> i < length (body_rows rows) \<longrightarrow>
      (td (body_rows rows ! i) \<noteq> [] \<longrightarrow>
         index f ! i = Cell_label (Str (hd (td (body_rows rows ! i))))) \<and>
      (strong (body_rows rows ! i) \<noteq> 0 \<longrightarrow>
         take (length (td (body_rows rows ! i)) - 1) (cells f ! i)
           = map Str (tl (td (body_rows rows ! i)))) \<and>
      (strong (body_rows rows ! i) = 0 \<longrightarrow>
         map Some (take (length (td (body_rows rows ! i)) - 1) (cells f ! i))
           = map normalize (tl (td (body_rows rows ! i))))) \<and>
   (display_table_rows rows = Convert_failed df \<longrightarrow>
      map (take 1) (cells df) = map (\<lambda>r. map Str (take 1 (td r))) (data_rows rows))"
proof -
  have conv: "map (take 1) (cells df) = map (\<lambda>r. map Str (take 1 (td r))) (data_rows rows)"
    if "display_table_rows rows = Convert_failed df"
  proof -
    from that have "df = replaced_frame rows"
      unfolding display_table_rows_outcome
      by (auto split: if_splits list.splits simp: set_columns_def)
    then show ?thesis
      by (simp add: replaced_frame_def take_1_replaced comp_def)
  qed
  have succ: "(td (body_rows rows ! i) \<noteq> [] \<longrightarrow>
         index f ! i = Cell_label (Str (hd (td (body_rows rows ! i))))) \<and>
      (strong (body_rows rows ! i) \<noteq> 0 \<longrightarrow>
         take (length (td (body_rows rows ! i)) - 1) (cells f ! i)
           = map Str (tl (td (body_rows rows ! i)))) \<and>
      (strong (body_rows rows ! i) = 0 \<longrightarrow>
         map Some (take (length (td (body_rows rows ! i)) - 1) (cells f ! i))
           = map normalize (tl (td (body_rows rows ! i))))"
    if s: "display_table_rows rows = Success f" and i: "i < length (body_rows rows)"
  proof -
    let ?r = "body_rows rows ! i"
    let ?w = "table_width rows"
    from display_table_rows_Success [OF s]
    have num: "list_all (\<lambda>r. numeric_row (td r)) (data_rows rows)"
      and ix: "index f = map row_label (body_rows rows)"
      and ce: "cells f = map (\<lambda>r. tl (final_row ?w r)) (body_rows rows)"
      by (auto simp: indexed_frame_def)
    have mem: "?r \<in> set (body_rows rows)" using i by simp
    have a: "index f ! i = row_label ?r" using ix i by simp
    have b: "cells f ! i = tl (final_row ?w ?r)" using ce i by simp
    have c: "numeric_row (td ?r)" if "strong ?r = 0"
    proof -
      from mem that have "?r \<in> set (data_rows rows)"
        by (simp add: body_rows_def data_rows_def)
      with num show ?thesis by (simp add: list_all_iff)
    qed
    show ?thesis
      unfolding a b
      using c by (simp add: row_label_text tl_final_row_section tl_final_row_data)
  qed
  from conv succ show ?thesis by blast
qed

end
